theory Spec2Isabelle
  imports Main "HOL-Library.Sublist"
begin

section \<open>The component decorator handler of ngtsc\<close>

text \<open>
  A shallow embedding of \<^verbatim>\<open>ComponentDecoratorHandler\<close>
  (\<^verbatim>\<open>packages/compiler-cli/src/ngtsc/annotations/src/component.ts\<close>): its methods
  \<^verbatim>\<open>detect\<close>, \<open>analyze\<close> and \<open>compile\<close>. The handler calls into the TypeScript
  compiler API and into other modules (\<^verbatim>\<open>directive.ts\<close>, \<^verbatim>\<open>selector_scope.ts\<close>,
  \<^verbatim>\<open>metadata\<close>, \<^verbatim>\<open>@angular/compiler\<close>); those functions are parameters of the model,
  collected in the record \<open>env\<close>, and the theorems hold for every choice of them.
\<close>

subsection \<open>Syntax nodes\<close>

text \<open>
  Expression nodes of the TypeScript syntax tree. The handler only asks whether the
  decorator's argument is an object literal (\<^verbatim>\<open>ts.isObjectLiteralExpression\<close>); every
  other question about a node goes to a collaborator.
\<close>

datatype ts_Expression =
    isObjectLiteralExpression: ObjectLiteralExpression "(string \<times> ts_Expression) list"
  | Identifier string
  | StringLiteral string
  | NumericLiteral int
  | TrueKeyword
  | FalseKeyword

text \<open>
  A class declaration node. \<open>ident\<close> stands for the identity of the node object (the
  registry is keyed by the node), \<open>name_text\<close> for \<^verbatim>\<open>node.name!.text\<close> (the source
  asserts the name to be present) and \<open>fileName\<close> for
  \<^verbatim>\<open>node.getSourceFile().fileName\<close>.
\<close>

record ClassDeclaration =
  ident :: nat
  name_text :: string
  fileName :: string

text \<open>
  Modelled from the spec: the type \<^verbatim>\<open>Decorator\<close> of \<^verbatim>\<open>host.ts\<close>, an annotation
  instance with a name, an origin tag and an argument list; the source reads
  \<^verbatim>\<open>decorator.name\<close> and \<^verbatim>\<open>decorator.args\<close>, which may be \<^verbatim>\<open>null\<close>.
\<close>

record Decorator =
  name :: string
  origin :: "string option"
  args :: "ts_Expression list option"

subsection \<open>Values of the collaborators\<close>

text \<open>
  Modelled from the spec: the result type of \<^verbatim>\<open>staticallyResolve\<close>, a literal value
  (string, boolean, number, array, object literal) or something not known statically.
  The discriminators \<open>isString\<close> and \<open>isBoolean\<close> are the tests
  \<^verbatim>\<open>typeof v === 'string'\<close> and \<^verbatim>\<open>typeof v === 'boolean'\<close>.
\<close>

datatype ResolvedValue =
    isString: StringValue (stringOf: string)
  | isBoolean: BooleanValue (booleanOf: bool)
  | NumberValue int
  | ArrayValue "ResolvedValue list"
  | MapValue "(string \<times> ResolvedValue) list"
  | UnknownValue

text \<open>Opaque values of \<^verbatim>\<open>@angular/compiler\<close>: output expressions, statements, types.\<close>

datatype Expression = Expression string
datatype Statement = Statement string
datatype Type = Type string
datatype BindingParser = BindingParser nat
datatype R3QueryMetadata = R3QueryMetadata string

text \<open>
  Modelled from the spec: the result of \<^verbatim>\<open>parseTemplate\<close>, an AST plus diagnostics.
  The source tests \<^verbatim>\<open>template.errors !== undefined\<close> and renders each diagnostic with
  \<^verbatim>\<open>toString()\<close>.
\<close>

datatype ParseError = ParseError (toString: string)

datatype R3Node = Element string "R3Node list" | Text string

record ParsedTemplate =
  errors :: "ParseError list option"
  nodes :: "R3Node list"
  hasNgContent :: bool
  ngContentSelectors :: "string list"

text \<open>
  \<^verbatim>\<open>Map\<close> objects are mutable and compared by identity, so the model keeps them in a
  store: a reference is an address, and the store maps an address to the entries of the
  map that lives there, in insertion order.
\<close>

type_synonym ref = nat

type_synonym heap = "ref \<rightharpoonup> (string \<times> Expression) list"

text \<open>
  Modelled from the spec: \<^verbatim>\<open>R3DirectiveMetadata\<close>, the metadata shared by directives
  and components: a selector (string or \<^verbatim>\<open>null\<close>) and the other shared fields,
  which the handler copies without looking at them.
\<close>

datatype SharedFields = SharedFields (bindings: "(string \<times> string) list")

record R3DirectiveMetadata =
  selector :: "string option"
  shared :: SharedFields

text \<open>
  \<^verbatim>\<open>R3ComponentMetadata\<close> extends the directive metadata with the fields that
  \<open>analyze\<close> writes: \<^verbatim>\<open>template\<close>, \<^verbatim>\<open>viewQueries\<close>, \<^verbatim>\<open>pipes\<close> and
  \<^verbatim>\<open>directives\<close>, the last two references to \<^verbatim>\<open>Map<string, Expression>\<close> objects.
\<close>

record R3ComponentMetadata = R3DirectiveMetadata +
  template :: ParsedTemplate
  viewQueries :: "R3QueryMetadata list"
  pipes :: ref
  directives :: ref

text \<open>
  Modelled from the spec: \<^verbatim>\<open>CompilationScope\<close> of \<^verbatim>\<open>selector_scope.ts\<close>, the resolved
  sibling sets of a declaration: its directives and its pipes, each a reference to a map.
\<close>

record CompilationScope =
  scope_directives :: ref
  scope_pipes :: ref

text \<open>
  Modelled from the spec: \<^verbatim>\<open>ConstantPool\<close>, a per-compile context that collects
  constants and yields them as supporting statements, in the order produced.
\<close>

record ConstantPool =
  statements :: "Statement list"

definition new_ConstantPool :: ConstantPool where
  "new_ConstantPool = \<lparr>statements = []\<rparr>"

text \<open>The value of \<^verbatim>\<open>compileComponentFromMetadata\<close>: an expression and a type.\<close>

record R3ComponentDef =
  expression :: Expression
  type_expr :: Type

text \<open>\<^verbatim>\<open>AnalysisOutput\<close> is \<^verbatim>\<open>{analysis?: A}\<close>; \<^verbatim>\<open>{}\<close> is \<open>analysis = None\<close>.\<close>

record AnalysisOutput =
  analysis :: "R3ComponentMetadata option"

record CompileResult =
  result_name :: string
  initializer :: Expression
  result_statements :: "Statement list"
  result_type :: Type

subsection \<open>Errors\<close>

text \<open>
  Every \<^verbatim>\<open>throw new Error(msg)\<close> of the source is a value \<open>Inl\<close> of this type. The
  source throws plain \<^verbatim>\<open>Error\<close> objects; the constructor records which of the two
  error kinds the throw site belongs to (a rejected configuration, or diagnostics of
  the template parser) and carries the message.
\<close>

datatype error = ConfigError string | TemplateParseError string

subsection \<open>State and collaborators\<close>

text \<open>
  The calls the handler makes to its collaborators, with their arguments. The state
  keeps them in the order made, so that a theorem can say that a collaborator was (or
  was not) invoked and with what.
\<close>

datatype call =
    ExtractDirectiveMetadata ClassDeclaration Decorator
  | ReflectObjectLiteral ts_Expression
  | StaticallyResolve ts_Expression
  | ParseTemplate string string bool
  | RegisterSelector ClassDeclaration string
  | LookupCompilationScope ClassDeclaration
  | CompileComponentFromMetadata R3ComponentMetadata ConstantPool BindingParser

text \<open>
  The state the handler works on: the selector registry it was constructed with, the
  store of \<^verbatim>\<open>Map\<close> objects, and the calls made so far.

  Modelled from the spec: the registry of \<^verbatim>\<open>selector_scope.ts\<close> holds entries from a
  declaration to its selector string; how \<^verbatim>\<open>registerSelector\<close> changes it and what
  \<^verbatim>\<open>lookupCompilationScope\<close> reads from it is left to those two functions.
\<close>

type_synonym SelectorScopeRegistry = "ClassDeclaration \<rightharpoonup> string"

record state =
  scopeRegistry :: SelectorScopeRegistry
  heap :: heap
  calls :: "call list"

text \<open>
  The functions the handler imports. The type checker and the reflection host the
  handler was constructed with are fixed for its lifetime and are part of these
  functions. Each of them returns a value, as its declaration says.
  \<open>registerSelector\<close> returns the registry as the call leaves it;
  \<open>lookupCompilationScope\<close> reads the registry; the code generator reads
  the store (the maps behind \<open>pipes\<close> and \<open>directives\<close>) and returns, with its result,
  the constant pool as it has filled it.
\<close>

record env =
  isAngularCore :: "Decorator \<Rightarrow> bool"
  extractDirectiveMetadata :: "ClassDeclaration \<Rightarrow> Decorator \<Rightarrow> R3DirectiveMetadata option"
  reflectObjectLiteral :: "ts_Expression \<Rightarrow> (string \<rightharpoonup> ts_Expression)"
  staticallyResolve :: "ts_Expression \<Rightarrow> ResolvedValue"
  parseTemplate :: "string \<Rightarrow> string \<Rightarrow> bool \<Rightarrow> ParsedTemplate"
  registerSelector ::
    "SelectorScopeRegistry \<Rightarrow> ClassDeclaration \<Rightarrow> string \<Rightarrow> SelectorScopeRegistry"
  lookupCompilationScope :: "SelectorScopeRegistry \<Rightarrow> ClassDeclaration \<Rightarrow> CompilationScope option"
  makeBindingParser :: BindingParser
  compileComponentFromMetadata ::
    "heap \<Rightarrow> R3ComponentMetadata \<Rightarrow> ConstantPool \<Rightarrow> BindingParser \<Rightarrow> R3ComponentDef \<times> ConstantPool"

definition log :: "call \<Rightarrow> state \<Rightarrow> state" where
  "log c s = s\<lparr>calls := calls s @ [c]\<rparr>"

text \<open>The calls made between an earlier state and a later one.\<close>

definition calls_since :: "state \<Rightarrow> state \<Rightarrow> call list" where
  "calls_since s s' = drop (length (calls s)) (calls s')"

subsection \<open>The module constant\<close>

text \<open>
  \<^verbatim>\<open>const EMPTY_MAP = new Map<string, Expression>()\<close> runs once, when the module is
  loaded: one map object, at one address, empty. \<open>module_heap\<close> is the store after that
  statement.
\<close>

definition EMPTY_MAP :: ref where
  "EMPTY_MAP = 0"

definition module_heap :: heap where
  "module_heap = [EMPTY_MAP \<mapsto> []]"

subsection \<open>The handler\<close>

text \<open>\<^verbatim>\<open>Array.prototype.join\<close> on strings.\<close>

fun join :: "string \<Rightarrow> string list \<Rightarrow> string" where
  "join sep [] = []"
| "join sep [x] = x"
| "join sep (x # y # ys) = x @ sep @ join sep (y # ys)"

definition detect :: "env \<Rightarrow> Decorator list \<Rightarrow> Decorator option" where
  "detect env decorators =
     find (\<lambda>decorator. name decorator = ''Component'' \<and> isAngularCore env decorator) decorators"

text \<open>
  Lines 76 to 101 of \<open>analyze\<close>: parsing the template, registering the selector and
  building the metadata, with the value the local \<^verbatim>\<open>preserveWhitespaces\<close> has by then.
\<close>

definition analyze_template ::
  "env \<Rightarrow> ClassDeclaration \<Rightarrow> R3DirectiveMetadata \<Rightarrow> string \<Rightarrow> bool \<Rightarrow> state
     \<Rightarrow> (error + AnalysisOutput) \<times> state" where
  "analyze_template env node directiveMetadata templateStr preserveWhitespaces s =
     (let url = fileName node @ ''#'' @ name_text node @ ''/template.html'';
          s = log (ParseTemplate templateStr url preserveWhitespaces) s;
          template = parseTemplate env templateStr url preserveWhitespaces
      in if errors template \<noteq> None then
           (Inl (TemplateParseError
              (''Errors parsing template: '' @ join '', '' (map toString (the (errors template))))), s)
         else
           let s = (if selector directiveMetadata \<noteq> None then
                      (log (RegisterSelector node (the (selector directiveMetadata))) s)
                        \<lparr>scopeRegistry :=
                           registerSelector env (scopeRegistry s) node
                             (the (selector directiveMetadata))\<rparr>
                    else s)
           in (Inr \<lparr>analysis = Some
                 (R3DirectiveMetadata.extend directiveMetadata
                    (R3ComponentMetadata.fields template [] EMPTY_MAP EMPTY_MAP))\<rparr>, s))"

definition analyze ::
  "env \<Rightarrow> ClassDeclaration \<Rightarrow> Decorator \<Rightarrow> state \<Rightarrow> (error + AnalysisOutput) \<times> state" where
  "analyze env node decorator s =
     (if args decorator = None \<or> length (the (args decorator)) \<noteq> 1 then
        (Inl (ConfigError ''Incorrect number of arguments to @Component decorator''), s)
      else
        let meta = the (args decorator) ! 0 in
        if \<not> isObjectLiteralExpression meta then
          (Inl (ConfigError ''Decorator argument must be literal.''), s)
        else
          let s = log (ExtractDirectiveMetadata node decorator) s in
          case extractDirectiveMetadata env node decorator of
            None \<Rightarrow> (Inr \<lparr>analysis = None\<rparr>, s)
          | Some directiveMetadata \<Rightarrow>
              let s = log (ReflectObjectLiteral meta) s;
                  component = reflectObjectLiteral env meta in
              if component ''template'' = None then
                (Inl (ConfigError ''For now, components must directly have a template.''), s)
              else
                let templateExpr = the (component ''template'');
                    s = log (StaticallyResolve templateExpr) s;
                    templateStr = staticallyResolve env templateExpr in
                if \<not> isString templateStr then
                  (Inl (ConfigError
                     (''Template must statically resolve to a string: '' @ name_text node)), s)
                else if component ''preserveWhitespaces'' \<noteq> None then
                  let valueExpr = the (component ''preserveWhitespaces'');
                      s = log (StaticallyResolve valueExpr) s;
                      value = staticallyResolve env valueExpr in
                  if \<not> isBoolean value then
                    (Inl (ConfigError ''preserveWhitespaces must resolve to a boolean if present''), s)
                  else
                    analyze_template env node directiveMetadata (stringOf templateStr)
                      (booleanOf value) s
                else
                  analyze_template env node directiveMetadata (stringOf templateStr) False s)"

text \<open>
  \<open>compile\<close>. The parameter \<^verbatim>\<open>analysis\<close> of the source is \<open>metadata\<close> here, and its
  reassigned value \<open>merged\<close>. The spread \<^verbatim>\<open>{...analysis, ...scope}\<close> copies the
  metadata and then writes each field of the scope over it.
\<close>

definition compile ::
  "env \<Rightarrow> ClassDeclaration \<Rightarrow> R3ComponentMetadata \<Rightarrow> state \<Rightarrow> CompileResult \<times> state" where
  "compile env node metadata s =
     (let pool = new_ConstantPool;
          s = log (LookupCompilationScope node) s;
          scope = lookupCompilationScope env (scopeRegistry s) node;
          merged = (if scope \<noteq> None then
                      metadata\<lparr>directives := scope_directives (the scope),
                               pipes := scope_pipes (the scope)\<rparr>
                    else metadata);
          s = log (CompileComponentFromMetadata merged pool (makeBindingParser env)) s;
          (res, pool) = compileComponentFromMetadata env (heap s) merged pool (makeBindingParser env)
      in (\<lparr>result_name = ''ngComponentDef'',
           initializer = expression res,
           result_statements = statements pool,
           result_type = type_expr res\<rparr>, s))"

subsection \<open>Sample collaborators and declarations\<close>

text \<open>
  One concrete choice of the collaborators, and a few declarations, on which the
  theorems below are instantiated. The reflection of an object literal looks its
  properties up by name; the evaluator resolves literals and nothing else; the extractor
  skips a declaration whose configuration has \<^verbatim>\<open>jit: true\<close> and reads the selector; the
  parser knows three markup strings; registering a selector adds an entry to the
  registry; a compilation scope exists for the declarations that have one.
\<close>

definition sample_reflect :: "ts_Expression \<Rightarrow> (string \<rightharpoonup> ts_Expression)" where
  "sample_reflect e = (case e of ObjectLiteralExpression ps \<Rightarrow> map_of ps | _ \<Rightarrow> Map.empty)"

fun sample_resolve :: "ts_Expression \<Rightarrow> ResolvedValue" where
  "sample_resolve (StringLiteral str) = StringValue str"
| "sample_resolve (NumericLiteral n) = NumberValue n"
| "sample_resolve TrueKeyword = BooleanValue True"
| "sample_resolve FalseKeyword = BooleanValue False"
| "sample_resolve (Identifier x) = UnknownValue"
| "sample_resolve (ObjectLiteralExpression ps) = UnknownValue"

definition sample_selector :: "ts_Expression option \<Rightarrow> string option" where
  "sample_selector e = (case e of Some (StringLiteral sel) \<Rightarrow> Some sel | _ \<Rightarrow> None)"

definition sample_extract :: "ClassDeclaration \<Rightarrow> Decorator \<Rightarrow> R3DirectiveMetadata option" where
  "sample_extract node decorator =
     (let config = sample_reflect (hd (the (args decorator)))
      in if config ''jit'' = Some TrueKeyword then None
         else Some \<lparr>selector = sample_selector (config ''selector''),
                    shared = SharedFields [(''name'', name_text node)]\<rparr>)"

definition sample_parse :: "string \<Rightarrow> string \<Rightarrow> bool \<Rightarrow> ParsedTemplate" where
  "sample_parse markup url preserveWhitespaces =
     (if markup = ''<div></div>'' then
        \<lparr>errors = None, nodes = [Element ''div'' []], hasNgContent = False,
         ngContentSelectors = []\<rparr>
      else if markup = ''<div>'' then
        \<lparr>errors = Some [ParseError ''unclosed tag div''], nodes = [], hasNgContent = False,
         ngContentSelectors = []\<rparr>
      else if markup = ''<p><b>'' then
        \<lparr>errors = Some [ParseError ''unclosed tag p'', ParseError ''unclosed tag b''],
         nodes = [], hasNgContent = False, ngContentSelectors = []\<rparr>
      else
        \<lparr>errors = None, nodes = [Text markup], hasNgContent = False, ngContentSelectors = []\<rparr>)"

definition sample_register ::
  "SelectorScopeRegistry \<Rightarrow> ClassDeclaration \<Rightarrow> string \<Rightarrow> SelectorScopeRegistry" where
  "sample_register reg node sel = reg(node \<mapsto> sel)"

definition sample_lookup :: "SelectorScopeRegistry \<Rightarrow> ClassDeclaration \<Rightarrow> CompilationScope option" where
  "sample_lookup reg node =
     (if reg node = None then None else Some \<lparr>scope_directives = 1, scope_pipes = 2\<rparr>)"

definition sample_generate ::
  "heap \<Rightarrow> R3ComponentMetadata \<Rightarrow> ConstantPool \<Rightarrow> BindingParser \<Rightarrow> R3ComponentDef \<times> ConstantPool" where
  "sample_generate h metadata pool parser =
     (\<lparr>expression = Expression (''defineComponent'' @ concat (map fst (the (h (directives metadata))))),
       type_expr = Type ''ComponentDef''\<rparr>,
      pool\<lparr>statements := statements pool @ [Statement ''_c0'']\<rparr>)"

definition sample_env :: env where
  "sample_env =
     \<lparr>isAngularCore = (\<lambda>decorator. origin decorator = Some ''@angular/core''),
      extractDirectiveMetadata = sample_extract,
      reflectObjectLiteral = sample_reflect,
      staticallyResolve = sample_resolve,
      parseTemplate = sample_parse,
      registerSelector = sample_register,
      lookupCompilationScope = sample_lookup,
      makeBindingParser = BindingParser 0,
      compileComponentFromMetadata = sample_generate\<rparr>"

definition Component :: "ts_Expression list option \<Rightarrow> Decorator" where
  "Component as = \<lparr>name = ''Component'', origin = Some ''@angular/core'', args = as\<rparr>"

definition Foo :: ClassDeclaration where
  "Foo = \<lparr>ident = 1, name_text = ''Foo'', fileName = ''foo.ts''\<rparr>"

definition Bar :: ClassDeclaration where
  "Bar = \<lparr>ident = 2, name_text = ''Bar'', fileName = ''bar.ts''\<rparr>"

text \<open>The store after the module is loaded and a registry has built two maps for a scope.\<close>

definition sample_heap :: heap where
  "sample_heap = module_heap(1 \<mapsto> [(''bar'', Expression ''Bar'')], 2 \<mapsto> [])"

definition initial_state :: state where
  "initial_state = \<lparr>scopeRegistry = Map.empty, heap = sample_heap, calls = []\<rparr>"

text \<open>\<^verbatim>\<open>{ template: "<div></div>" }\<close>\<close>

definition config_div :: ts_Expression where
  "config_div = ObjectLiteralExpression [(''template'', StringLiteral ''<div></div>'')]"

text \<open>\<^verbatim>\<open>{ template: "<div></div>", preserveWhitespaces: "yes" }\<close>\<close>

definition config_yes :: ts_Expression where
  "config_yes = ObjectLiteralExpression
     [(''template'', StringLiteral ''<div></div>''), (''preserveWhitespaces'', StringLiteral ''yes'')]"

text \<open>\<^verbatim>\<open>{ selector: "bar", template: "<div></div>", preserveWhitespaces: true }\<close>\<close>

definition config_bar :: ts_Expression where
  "config_bar = ObjectLiteralExpression
     [(''selector'', StringLiteral ''bar''), (''template'', StringLiteral ''<div></div>''),
      (''preserveWhitespaces'', TrueKeyword)]"

text \<open>\<^verbatim>\<open>{ selector: "foo", template: "<p><b>" }\<close>\<close>

definition config_unclosed :: ts_Expression where
  "config_unclosed = ObjectLiteralExpression
     [(''selector'', StringLiteral ''foo''), (''template'', StringLiteral ''<p><b>'')]"

text \<open>\<^verbatim>\<open>{ selector: "foo" }\<close>\<close>

definition config_no_template :: ts_Expression where
  "config_no_template = ObjectLiteralExpression [(''selector'', StringLiteral ''foo'')]"

text \<open>\<^verbatim>\<open>{ template: 5 }\<close>\<close>

definition config_number :: ts_Expression where
  "config_number = ObjectLiteralExpression [(''template'', NumericLiteral 5)]"

text \<open>\<^verbatim>\<open>{ jit: true, template: 5, preserveWhitespaces: "yes" }\<close>\<close>

definition config_jit :: ts_Expression where
  "config_jit = ObjectLiteralExpression
     [(''jit'', TrueKeyword), (''template'', NumericLiteral 5),
      (''preserveWhitespaces'', StringLiteral ''yes'')]"

text \<open>
  What analysing \<open>Foo\<close> with \<^verbatim>\<open>{ template: "<div></div>" }\<close> in the initial state
  gives, and then \<open>Bar\<close> with its selector.
\<close>

definition div_template :: ParsedTemplate where
  "div_template =
     \<lparr>errors = None, nodes = [Element ''div'' []], hasNgContent = False,
      ngContentSelectors = []\<rparr>"

definition Foo_metadata :: R3ComponentMetadata where
  "Foo_metadata =
     \<lparr>selector = None, shared = SharedFields [(''name'', ''Foo'')],
      template = div_template, viewQueries = [], pipes = EMPTY_MAP, directives = EMPTY_MAP\<rparr>"

definition Bar_metadata :: R3ComponentMetadata where
  "Bar_metadata =
     \<lparr>selector = Some ''bar'', shared = SharedFields [(''name'', ''Bar'')],
      template = div_template, viewQueries = [], pipes = EMPTY_MAP, directives = EMPTY_MAP\<rparr>"

definition Foo_analyzed :: state where
  "Foo_analyzed =
     \<lparr>scopeRegistry = Map.empty, heap = sample_heap,
      calls =
        [ExtractDirectiveMetadata Foo (Component (Some [config_div])),
         ReflectObjectLiteral config_div,
         StaticallyResolve (StringLiteral ''<div></div>''),
         ParseTemplate ''<div></div>'' ''foo.ts#Foo/template.html'' False]\<rparr>"

definition Bar_analyzed :: state where
  "Bar_analyzed =
     \<lparr>scopeRegistry = [Bar \<mapsto> ''bar''], heap = sample_heap,
      calls = calls Foo_analyzed @
        [ExtractDirectiveMetadata Bar (Component (Some [config_bar])),
         ReflectObjectLiteral config_bar,
         StaticallyResolve (StringLiteral ''<div></div>''),
         StaticallyResolve TrueKeyword,
         ParseTemplate ''<div></div>'' ''bar.ts#Bar/template.html'' True,
         RegisterSelector Bar ''bar'']\<rparr>"

text \<open>
  Three more units for one and the same \<open>Bar\<close>. In \<open>unit_with_Foo\<close>, \<open>Foo\<close> has been
  analysed before with \<^verbatim>\<open>{ selector: "foo", template: "<div></div>" }\<close>, so the
  registry and the calls differ from those of the initial state. In
  \<open>unit_with_baz\<close>, the map of directives that the registry has built for the scope
  holds one more directive. \<open>module_env\<close> is \<open>sample_env\<close> with another scope lookup:
  \<open>Foo\<close> and \<open>Bar\<close> are declared by one module, whose scope is known once both have
  registered their selectors.
\<close>

definition config_foo :: ts_Expression where
  "config_foo = ObjectLiteralExpression
     [(''selector'', StringLiteral ''foo''), (''template'', StringLiteral ''<div></div>'')]"

definition unit_with_Foo :: state where
  "unit_with_Foo =
     \<lparr>scopeRegistry = [Foo \<mapsto> ''foo''], heap = sample_heap,
      calls =
        [ExtractDirectiveMetadata Foo (Component (Some [config_foo])),
         ReflectObjectLiteral config_foo,
         StaticallyResolve (StringLiteral ''<div></div>''),
         ParseTemplate ''<div></div>'' ''foo.ts#Foo/template.html'' False,
         RegisterSelector Foo ''foo'']\<rparr>"

definition unit_with_baz :: state where
  "unit_with_baz =
     \<lparr>scopeRegistry = Map.empty,
      heap = sample_heap(1 \<mapsto> [(''bar'', Expression ''Bar''), (''baz'', Expression ''Baz'')]),
      calls = []\<rparr>"

definition module_lookup ::
  "SelectorScopeRegistry \<Rightarrow> ClassDeclaration \<Rightarrow> CompilationScope option" where
  "module_lookup reg node =
     (if reg Foo = None \<or> reg Bar = None then None
      else Some \<lparr>scope_directives = 1, scope_pipes = 2\<rparr>)"

definition module_env :: env where
  "module_env = sample_env\<lparr>lookupCompilationScope := module_lookup\<rparr>"

text \<open>The states in which \<open>Bar\<close> is compiled: each unit after the analysis of \<open>Bar\<close>.\<close>

definition Bar_calls :: "call list" where
  "Bar_calls =
     [ExtractDirectiveMetadata Bar (Component (Some [config_bar])),
      ReflectObjectLiteral config_bar,
      StaticallyResolve (StringLiteral ''<div></div>''),
      StaticallyResolve TrueKeyword,
      ParseTemplate ''<div></div>'' ''bar.ts#Bar/template.html'' True,
      RegisterSelector Bar ''bar'']"

definition Bar_alone :: state where
  "Bar_alone = \<lparr>scopeRegistry = [Bar \<mapsto> ''bar''], heap = sample_heap, calls = Bar_calls\<rparr>"

definition Bar_after_Foo :: state where
  "Bar_after_Foo =
     \<lparr>scopeRegistry = [Foo \<mapsto> ''foo'', Bar \<mapsto> ''bar''], heap = sample_heap,
      calls = calls unit_with_Foo @ Bar_calls\<rparr>"

definition Bar_with_baz :: state where
  "Bar_with_baz =
     \<lparr>scopeRegistry = [Bar \<mapsto> ''bar''], heap = heap unit_with_baz, calls = Bar_calls\<rparr>"

text \<open>
  \<open>echo_env\<close> is \<open>sample_env\<close> with a parser whose result shows what it was given:
  the markup, the locator and the whitespace option.
\<close>

definition echo_parse :: "string \<Rightarrow> string \<Rightarrow> bool \<Rightarrow> ParsedTemplate" where
  "echo_parse markup url preserveWhitespaces =
     \<lparr>errors = None,
      nodes = [Text markup, Text url, Text (if preserveWhitespaces then ''preserve'' else ''collapse'')],
      hasNgContent = False, ngContentSelectors = []\<rparr>"

definition echo_env :: env where
  "echo_env = sample_env\<lparr>parseTemplate := echo_parse\<rparr>"

section \<open>Auxiliary facts\<close>

lemmas analyze_defs = analyze_def analyze_template_def Let_def log_def calls_since_def
  R3DirectiveMetadata.defs R3ComponentMetadata.defs

lemmas sample_defs = sample_env_def sample_extract_def sample_reflect_def sample_selector_def
  sample_parse_def sample_register_def sample_lookup_def sample_generate_def Component_def Foo_def Bar_def
  initial_state_def sample_heap_def module_heap_def EMPTY_MAP_def
  config_div_def config_yes_def config_bar_def config_unclosed_def config_no_template_def
  config_number_def config_jit_def div_template_def Foo_metadata_def Bar_metadata_def
  Foo_analyzed_def Bar_analyzed_def

lemmas unit_defs = config_foo_def unit_with_Foo_def unit_with_baz_def module_lookup_def
  module_env_def Bar_calls_def Bar_alone_def Bar_after_Foo_def Bar_with_baz_def


subsection \<open>Joined strings contain their parts\<close>

lemma sublist_behind: "sublist x ys \<Longrightarrow> sublist x (ps @ ys)"
proof -
  assume "sublist x ys"
  then obtain as bs where "ys = as @ x @ bs" by (auto simp: sublist_def)
  then have "ps @ ys = (ps @ as) @ x @ bs" by simp
  then show ?thesis unfolding sublist_def by blast
qed

lemma sublist_join: "x \<in> set xs \<Longrightarrow> sublist x (join sep xs)"
proof (induction sep xs rule: join.induct)
  case (1 sep)
  then show ?case by simp
next
  case (2 sep y)
  then show ?case by simp
next
  case (3 sep y z zs)
  show ?case
  proof (cases "x = y")
    case True
    then show ?thesis by (simp add: sublist_append_rightI)
  next
    case False
    with 3 have "sublist x (join sep (z # zs))" by simp
    then have "sublist x ((y @ sep) @ join sep (z # zs))" by (rule sublist_behind)
    then show ?thesis by simp
  qed
qed

subsection \<open>What \<open>analyze\<close> does not depend on, and what it leaves alone\<close>

lemma analyze_placeholders:
  "analyze env node decorator s = (Inr \<lparr>analysis = Some m\<rparr>, s') \<Longrightarrow>
     pipes m = EMPTY_MAP \<and> directives m = EMPTY_MAP"
  by (auto simp: analyze_defs split: if_splits option.splits)


lemma analyze_heap: "heap (snd (analyze env node decorator s)) = heap s"
  by (auto simp: analyze_defs split: if_splits option.splits)

lemma compile_heap: "heap (snd (compile env node metadata s)) = heap s"
  by (simp add: compile_def Let_def log_def split: prod.splits)

subsection \<open>The sample runs\<close>

lemma args_Component: "args (Component as) = as"
  by (simp add: Component_def)

lemma sample_literals:
  "isObjectLiteralExpression config_div" "isObjectLiteralExpression config_yes"
  "isObjectLiteralExpression config_bar" "isObjectLiteralExpression config_unclosed"
  "isObjectLiteralExpression config_no_template" "isObjectLiteralExpression config_number"
  "isObjectLiteralExpression config_jit"
  by (simp_all add: sample_defs)

lemma sample_extracts:
  "extractDirectiveMetadata sample_env Foo (Component (Some [config_div])) =
     Some \<lparr>selector = None, shared = SharedFields [(''name'', ''Foo'')]\<rparr>"
  "extractDirectiveMetadata sample_env Foo (Component (Some [config_yes])) =
     Some \<lparr>selector = None, shared = SharedFields [(''name'', ''Foo'')]\<rparr>"
  "extractDirectiveMetadata sample_env Bar (Component (Some [config_bar])) =
     Some \<lparr>selector = Some ''bar'', shared = SharedFields [(''name'', ''Bar'')]\<rparr>"
  "extractDirectiveMetadata sample_env Foo (Component (Some [config_no_template])) =
     Some \<lparr>selector = Some ''foo'', shared = SharedFields [(''name'', ''Foo'')]\<rparr>"
  "extractDirectiveMetadata sample_env Foo (Component (Some [config_number])) =
     Some \<lparr>selector = None, shared = SharedFields [(''name'', ''Foo'')]\<rparr>"
  "extractDirectiveMetadata sample_env Foo (Component (Some [config_jit])) = None"
  by (simp_all add: sample_defs)

lemma analyze_Foo:
  "analyze sample_env Foo (Component (Some [config_div])) initial_state =
     (Inr \<lparr>analysis = Some Foo_metadata\<rparr>, Foo_analyzed)"
  by (simp add: analyze_defs sample_defs)

lemma analyze_Bar:
  "analyze sample_env Bar (Component (Some [config_bar])) Foo_analyzed =
     (Inr \<lparr>analysis = Some Bar_metadata\<rparr>, Bar_analyzed)"
  by (simp add: analyze_defs sample_defs)

lemma analyze_Foo_unclosed:
  "analyze sample_env Foo (Component (Some [config_unclosed])) initial_state =
     (Inl (TemplateParseError ''Errors parsing template: unclosed tag p, unclosed tag b''),
      initial_state\<lparr>calls :=
        [ExtractDirectiveMetadata Foo (Component (Some [config_unclosed])),
         ReflectObjectLiteral config_unclosed,
         StaticallyResolve (StringLiteral ''<p><b>''),
         ParseTemplate ''<p><b>'' ''foo.ts#Foo/template.html'' False]\<rparr>)"
  by (simp add: analyze_defs sample_defs)

lemma analyze_Foo_yes:
  "analyze sample_env Foo (Component (Some [config_yes])) initial_state =
     (Inl (ConfigError ''preserveWhitespaces must resolve to a boolean if present''),
      initial_state\<lparr>calls :=
        [ExtractDirectiveMetadata Foo (Component (Some [config_yes])),
         ReflectObjectLiteral config_yes,
         StaticallyResolve (StringLiteral ''<div></div>''),
         StaticallyResolve (StringLiteral ''yes'')]\<rparr>)"
  by (simp add: analyze_defs sample_defs)

lemma lookup_Foo: "lookupCompilationScope sample_env (scopeRegistry Bar_analyzed) Foo = None"
  by (simp add: sample_defs)

lemma lookup_Bar:
  "lookupCompilationScope sample_env (scopeRegistry Bar_analyzed) Bar =
     Some \<lparr>scope_directives = 1, scope_pipes = 2\<rparr>"
  by (simp add: sample_defs)

lemma heap_Bar_analyzed: "heap Bar_analyzed EMPTY_MAP = Some []"
  by (simp add: sample_defs)

subsection \<open>One declaration in several units\<close>

lemma analyze_Foo_selector:
  "analyze sample_env Foo (Component (Some [config_foo])) initial_state =
     (Inr \<lparr>analysis = Some (Foo_metadata\<lparr>selector := Some ''foo''\<rparr>)\<rparr>, unit_with_Foo)"
  by (simp add: analyze_defs sample_defs unit_defs)











subsection \<open>What the sample collaborators answer\<close>

lemma sample_extract_unclosed:
  "extractDirectiveMetadata sample_env Foo (Component (Some [config_unclosed])) =
     Some \<lparr>selector = Some ''foo'', shared = SharedFields [(''name'', ''Foo'')]\<rparr>"
  by (simp add: sample_defs)

lemma echo_extracts:
  "extractDirectiveMetadata echo_env Foo (Component (Some [config_div])) =
     Some \<lparr>selector = None, shared = SharedFields [(''name'', ''Foo'')]\<rparr>"
  "extractDirectiveMetadata echo_env Bar (Component (Some [config_bar])) =
     Some \<lparr>selector = Some ''bar'', shared = SharedFields [(''name'', ''Bar'')]\<rparr>"
  by (simp_all add: echo_env_def sample_defs)

lemma sample_reflected:
  "reflectObjectLiteral sample_env config_no_template ''template'' = None"
  "reflectObjectLiteral sample_env config_number ''template'' = Some (NumericLiteral 5)"
  "reflectObjectLiteral sample_env config_div ''template'' = Some (StringLiteral ''<div></div>'')"
  "reflectObjectLiteral sample_env config_div ''preserveWhitespaces'' = None"
  "reflectObjectLiteral sample_env config_yes ''template'' = Some (StringLiteral ''<div></div>'')"
  "reflectObjectLiteral sample_env config_yes ''preserveWhitespaces'' = Some (StringLiteral ''yes'')"
  "reflectObjectLiteral sample_env config_unclosed ''template'' = Some (StringLiteral ''<p><b>'')"
  "reflectObjectLiteral sample_env config_unclosed ''preserveWhitespaces'' = None"
  by (simp_all add: sample_defs)

lemma echo_reflected:
  "reflectObjectLiteral echo_env config_div ''template'' = Some (StringLiteral ''<div></div>'')"
  "reflectObjectLiteral echo_env config_div ''preserveWhitespaces'' = None"
  "reflectObjectLiteral echo_env config_bar ''template'' = Some (StringLiteral ''<div></div>'')"
  "reflectObjectLiteral echo_env config_bar ''preserveWhitespaces'' = Some TrueKeyword"
  by (simp_all add: echo_env_def sample_defs)

lemma sample_resolved:
  "\<not> isString (staticallyResolve sample_env (NumericLiteral 5))"
  "staticallyResolve sample_env (StringLiteral ''<div></div>'') = StringValue ''<div></div>''"
  "\<not> isBoolean (staticallyResolve sample_env (StringLiteral ''yes''))"
  "staticallyResolve sample_env (StringLiteral ''<p><b>'') = StringValue ''<p><b>''"
  by (simp_all add: sample_env_def)

lemma echo_resolved:
  "staticallyResolve echo_env (StringLiteral ''<div></div>'') = StringValue ''<div></div>''"
  "staticallyResolve echo_env TrueKeyword = BooleanValue True"
  by (simp_all add: echo_env_def sample_env_def)

lemma sample_parsed:
  "errors (parseTemplate sample_env ''<div></div>''
     (fileName Foo @ ''#'' @ name_text Foo @ ''/template.html'') False) = None"
  "errors (parseTemplate sample_env ''<p><b>''
     (fileName Foo @ ''#'' @ name_text Foo @ ''/template.html'') False) =
     Some [ParseError ''unclosed tag p'', ParseError ''unclosed tag b'']"
  by (simp_all add: sample_env_def sample_parse_def)

lemma echo_parsed:
  "fileName Foo @ ''#'' @ name_text Foo @ ''/template.html'' = ''foo.ts#Foo/template.html''"
  "fileName Bar @ ''#'' @ name_text Bar @ ''/template.html'' = ''bar.ts#Bar/template.html''"
  "parseTemplate echo_env markup url preserveWhitespaces =
     \<lparr>errors = None,
      nodes = [Text markup, Text url, Text (if preserveWhitespaces then ''preserve'' else ''collapse'')],
      hasNgContent = False, ngContentSelectors = []\<rparr>"
  by (simp_all add: echo_env_def sample_env_def echo_parse_def Foo_def Bar_def)

section \<open>The claims\<close>

subsection \<open>Compilation\<close>

text \<open>
  C1. Take metadata that \<open>analyze\<close> has produced for a declaration and compile it in
  any state. Then \<open>compile\<close> looks the scope up and invokes the code generator exactly
  once, with a fresh constant pool and with metadata \<open>merged\<close> that differs from the
  analysed metadata in no field other than \<open>pipes\<close> and \<open>directives\<close>. When a
  compilation scope is found, these two fields are the scope's resolved sets. When none
  is found, they are still the placeholders of \<open>analyze\<close>, the generator is invoked all
  the same, and the maps behind them are empty provided that the module's map is as
  empty as it was when the module was loaded (\<open>analyze\<close> and \<open>compile\<close> keep it
  so: \<open>analyze_heap\<close>, \<open>compile_heap\<close>). The initializer of the result is the
  expression the generator returns for \<open>merged\<close>.
\<close>

theorem compile_overrides_only_sibling_sets:
  assumes "analyze env node decorator s0 = (Inr \<lparr>analysis = Some metadata\<rparr>, s1)"
    and "compile env node metadata s = (result, s')"
  shows "\<exists>merged.
     calls_since s s' =
       [LookupCompilationScope node,
        CompileComponentFromMetadata merged new_ConstantPool (makeBindingParser env)]
     \<and> initializer result =
         expression (fst (compileComponentFromMetadata env (heap s) merged new_ConstantPool
           (makeBindingParser env)))
     \<and> merged\<lparr>pipes := pipes metadata, directives := directives metadata\<rparr> = metadata
     \<and> (\<forall>scope. lookupCompilationScope env (scopeRegistry s) node = Some scope \<longrightarrow>
          pipes merged = scope_pipes scope \<and> directives merged = scope_directives scope)
     \<and> (lookupCompilationScope env (scopeRegistry s) node = None \<longrightarrow>
          pipes merged = EMPTY_MAP \<and> directives merged = EMPTY_MAP
          \<and> (heap s EMPTY_MAP = Some [] \<longrightarrow>
               heap s' (pipes merged) = Some [] \<and> heap s' (directives merged) = Some []))"
proof -
  have placeholders: "pipes metadata = EMPTY_MAP \<and> directives metadata = EMPTY_MAP"
    using assms(1) by (rule analyze_placeholders)
  show ?thesis
  proof (cases "lookupCompilationScope env (scopeRegistry s) node")
    case None
    with placeholders assms(2) show ?thesis
      by (intro exI[of _ metadata])
         (auto simp: compile_def Let_def log_def calls_since_def split: prod.splits)
  next
    case (Some scope)
    with assms(2) show ?thesis
      by (intro exI[of _ "metadata\<lparr>directives := scope_directives scope,
                                     pipes := scope_pipes scope\<rparr>"])
         (auto simp: compile_def Let_def log_def calls_since_def split: prod.splits)
  qed
qed

text \<open>
  The theorem on the sample declarations, compiled after both have been analysed:
  \<open>Foo\<close> has no selector and so no scope, \<open>Bar\<close> has one.
\<close>

theorem compile_overrides_only_sibling_sets_witness:
  "analyze sample_env Foo (Component (Some [config_div])) initial_state =
     (Inr \<lparr>analysis = Some Foo_metadata\<rparr>, Foo_analyzed)
   \<and> lookupCompilationScope sample_env (scopeRegistry Bar_analyzed) Foo = None
   \<and> heap Bar_analyzed EMPTY_MAP = Some []
   \<and> calls_since Bar_analyzed (snd (compile sample_env Foo Foo_metadata Bar_analyzed)) =
       [LookupCompilationScope Foo,
        CompileComponentFromMetadata Foo_metadata new_ConstantPool (BindingParser 0)]
   \<and> heap (snd (compile sample_env Foo Foo_metadata Bar_analyzed)) (pipes Foo_metadata) = Some []
   \<and> heap (snd (compile sample_env Foo Foo_metadata Bar_analyzed)) (directives Foo_metadata)
       = Some []
   \<and> analyze sample_env Bar (Component (Some [config_bar])) Foo_analyzed =
       (Inr \<lparr>analysis = Some Bar_metadata\<rparr>, Bar_analyzed)
   \<and> lookupCompilationScope sample_env (scopeRegistry Bar_analyzed) Bar =
       Some \<lparr>scope_directives = 1, scope_pipes = 2\<rparr>
   \<and> calls_since Bar_analyzed (snd (compile sample_env Bar Bar_metadata Bar_analyzed)) =
       [LookupCompilationScope Bar,
        CompileComponentFromMetadata (Bar_metadata\<lparr>pipes := 2, directives := 1\<rparr>)
          new_ConstantPool (BindingParser 0)]"
proof -
  from compile_overrides_only_sibling_sets [OF analyze_Foo surjective_pairing, of Bar_analyzed]
  obtain m where m:
     "calls_since Bar_analyzed (snd (compile sample_env Foo Foo_metadata Bar_analyzed)) =
       [LookupCompilationScope Foo,
        CompileComponentFromMetadata m new_ConstantPool (makeBindingParser sample_env)]"
     "m\<lparr>pipes := pipes Foo_metadata, directives := directives Foo_metadata\<rparr> = Foo_metadata"
     "pipes m = EMPTY_MAP" "directives m = EMPTY_MAP"
     "heap (snd (compile sample_env Foo Foo_metadata Bar_analyzed)) (pipes m) = Some []"
     "heap (snd (compile sample_env Foo Foo_metadata Bar_analyzed)) (directives m) = Some []"
    using lookup_Foo heap_Bar_analyzed by auto
  have "m = Foo_metadata"
    using m(2,3,4) by (cases m) (simp add: Foo_metadata_def)
  note foo_part = m(1,5,6) [unfolded this]
  from compile_overrides_only_sibling_sets [OF analyze_Bar surjective_pairing, of Bar_analyzed]
  obtain m' where m':
     "calls_since Bar_analyzed (snd (compile sample_env Bar Bar_metadata Bar_analyzed)) =
       [LookupCompilationScope Bar,
        CompileComponentFromMetadata m' new_ConstantPool (makeBindingParser sample_env)]"
     "m'\<lparr>pipes := pipes Bar_metadata, directives := directives Bar_metadata\<rparr> = Bar_metadata"
     "pipes m' = 2" "directives m' = 1"
    using lookup_Bar by auto
  have "m' = Bar_metadata\<lparr>pipes := 2, directives := 1\<rparr>"
    using m'(2,3,4) by (cases m') (auto simp add: Bar_metadata_def)
  note bar_part = m'(1) [unfolded this]
  show ?thesis
    using analyze_Foo analyze_Bar lookup_Foo lookup_Bar heap_Bar_analyzed foo_part bar_part
    by (simp add: sample_env_def)
qed

subsection \<open>The placeholders\<close>

text \<open>
  C2, as the code has it. Whenever \<open>analyze\<close> returns metadata, both placeholder
  fields, \<open>pipes\<close> and \<open>directives\<close>, hold the reference to the one map \<^verbatim>\<open>EMPTY_MAP\<close>
  that the module creates when it is loaded: the same map for both fields and for
  every declaration. \<open>analyze\<close> itself does not write to the store, so that map is
  afterwards what it was before.
\<close>

theorem analyze_placeholders_are_EMPTY_MAP:
  "analyze env node decorator s = (Inr \<lparr>analysis = Some m\<rparr>, s') \<Longrightarrow>
     pipes m = EMPTY_MAP \<and> directives m = EMPTY_MAP \<and> heap s' = heap s"
  by (auto simp: analyze_defs split: if_splits option.splits)

theorem analyze_placeholders_are_EMPTY_MAP_witness:
  "analyze sample_env Bar (Component (Some [config_bar])) Foo_analyzed =
     (Inr \<lparr>analysis = Some Bar_metadata\<rparr>, Bar_analyzed)
   \<and> pipes Bar_metadata = EMPTY_MAP \<and> directives Bar_metadata = EMPTY_MAP
   \<and> heap Bar_analyzed = heap Foo_analyzed"
  using analyze_placeholders_are_EMPTY_MAP [OF analyze_Bar] analyze_Bar by simp

text \<open>
  The placeholders are not fresh per declaration: the metadata of the two different
  declarations \<open>Foo\<close> and \<open>Bar\<close> hold one and the same reference, in both fields.
\<close>

theorem analyze_placeholders_fresh_counterexample:
  "Foo \<noteq> Bar
   \<and> analyze sample_env Foo (Component (Some [config_div])) initial_state =
       (Inr \<lparr>analysis = Some Foo_metadata\<rparr>, Foo_analyzed)
   \<and> analyze sample_env Bar (Component (Some [config_bar])) Foo_analyzed =
       (Inr \<lparr>analysis = Some Bar_metadata\<rparr>, Bar_analyzed)
   \<and> pipes Foo_metadata = pipes Bar_metadata
   \<and> directives Foo_metadata = directives Bar_metadata
   \<and> pipes Foo_metadata = directives Bar_metadata"
  using analyze_Foo analyze_Bar
  by (simp add: Foo_def Bar_def Foo_metadata_def Bar_metadata_def)

subsection \<open>Failure and the registry\<close>

text \<open>
  C3. If \<open>analyze\<close> fails for a declaration, with either kind of error, the selector
  registry is afterwards what it was before and \<^verbatim>\<open>registerSelector\<close> has not been
  called for the declaration; so a declaration that had no registration has none
  afterwards. The registration comes after every check.
\<close>

theorem analyze_failure_leaves_registry:
  assumes "analyze env node decorator s = (Inl e, s')"
  shows "scopeRegistry s' = scopeRegistry s
    \<and> (\<forall>sel. RegisterSelector node sel \<notin> set (calls_since s s'))
    \<and> (scopeRegistry s node = None \<longrightarrow> scopeRegistry s' node = None)"
  using assms by (auto simp: analyze_defs split: if_splits option.splits)

text \<open>
  \<open>Foo\<close> with \<^verbatim>\<open>{ selector: "foo", template: "<p><b>" }\<close>: there is a selector to
  register, the template does not parse, and nothing is registered.
\<close>

theorem analyze_failure_leaves_registry_witness:
  "fst (analyze sample_env Foo (Component (Some [config_unclosed])) initial_state) =
     Inl (TemplateParseError ''Errors parsing template: unclosed tag p, unclosed tag b'')
   \<and> selector (the (extractDirectiveMetadata sample_env Foo (Component (Some [config_unclosed]))))
       = Some ''foo''
   \<and> scopeRegistry initial_state Foo = None
   \<and> scopeRegistry (snd (analyze sample_env Foo (Component (Some [config_unclosed])) initial_state))
       = scopeRegistry initial_state
   \<and> scopeRegistry (snd (analyze sample_env Foo (Component (Some [config_unclosed])) initial_state))
       Foo = None"
  using analyze_failure_leaves_registry [OF analyze_Foo_unclosed] analyze_Foo_unclosed
  by (simp add: sample_defs)

subsection \<open>Determinism\<close>




subsection \<open>Template diagnostics\<close>

text \<open>
  C5. If, in the course of \<open>analyze\<close>, the template parser is called and reports
  diagnostics (its result has \<^verbatim>\<open>errors\<close>), then \<open>analyze\<close> fails with one
  \<open>TemplateParseError\<close>; its message is \<^verbatim>\<open>Errors parsing template: \<close> followed by the
  diagnostics' texts joined with a comma and a blank, so each of them occurs in it; no
  metadata, and so no template, is returned.
\<close>

theorem analyze_reports_all_diagnostics:
  assumes "analyze env node decorator s = (result, s')"
    and "ParseTemplate templateStr url preserveWhitespaces \<in> set (calls_since s s')"
    and "errors (parseTemplate env templateStr url preserveWhitespaces) = Some errs"
  shows "result =
           Inl (TemplateParseError (''Errors parsing template: '' @ join '', '' (map toString errs)))
         \<and> (\<forall>e \<in> set errs. sublist (toString e)
               (''Errors parsing template: '' @ join '', '' (map toString errs)))"
proof -
  have "result =
          Inl (TemplateParseError (''Errors parsing template: '' @ join '', '' (map toString errs)))"
    using assms by (auto simp: analyze_defs split: if_splits option.splits)
  moreover have
    "sublist (toString e) (''Errors parsing template: '' @ join '', '' (map toString errs))"
    if "e \<in> set errs" for e
    using that by (intro sublist_behind sublist_join) simp
  ultimately show ?thesis by blast
qed

theorem analyze_reports_all_diagnostics_witness:
  "ParseTemplate ''<p><b>'' ''foo.ts#Foo/template.html'' False
     \<in> set (calls_since initial_state
         (snd (analyze sample_env Foo (Component (Some [config_unclosed])) initial_state)))
   \<and> errors (parseTemplate sample_env ''<p><b>'' ''foo.ts#Foo/template.html'' False) =
       Some [ParseError ''unclosed tag p'', ParseError ''unclosed tag b'']
   \<and> fst (analyze sample_env Foo (Component (Some [config_unclosed])) initial_state) =
       Inl (TemplateParseError ''Errors parsing template: unclosed tag p, unclosed tag b'')
   \<and> sublist ''unclosed tag p'' ''Errors parsing template: unclosed tag p, unclosed tag b''
   \<and> sublist ''unclosed tag b'' ''Errors parsing template: unclosed tag p, unclosed tag b''"
proof -
  have called: "ParseTemplate ''<p><b>'' ''foo.ts#Foo/template.html'' False
     \<in> set (calls_since initial_state
         (snd (analyze sample_env Foo (Component (Some [config_unclosed])) initial_state)))"
    by (simp add: analyze_Foo_unclosed) (simp add: calls_since_def initial_state_def)
  have diagnostics:
    "errors (parseTemplate sample_env ''<p><b>'' ''foo.ts#Foo/template.html'' False) =
       Some [ParseError ''unclosed tag p'', ParseError ''unclosed tag b'']"
    by (simp add: sample_env_def sample_parse_def)
  show ?thesis
    using analyze_reports_all_diagnostics [OF surjective_pairing called diagnostics]
      called diagnostics
    by simp
qed

subsection \<open>The checks of \<open>analyze\<close>\<close>

text \<open>
  C6, as the code has it. Let a declaration pass the argument checks (one argument, an
  object literal) and not be skipped. If its configuration has no \<^verbatim>\<open>template\<close>
  field, \<open>analyze\<close> fails with a \<open>ConfigError\<close>. If the field is there and its
  value is not a string, \<open>analyze\<close> fails with a \<open>ConfigError\<close> whose message ends
  with the name of the declaration. If the value is a string, analysis goes on to the
  \<^verbatim>\<open>preserveWhitespaces\<close> check. When that field is absent or a boolean, the
  template is parsed: the parser is called with the string, the locator made of the
  file name and the declaration's name, and the option (\<open>False\<close> when absent), and
  what \<open>analyze\<close> returns is made of the parser's answer to exactly these arguments,
  the metadata holding it as its template when there are no diagnostics, the
  \<open>TemplateParseError\<close> of its diagnostics otherwise. When the field is present and
  not a boolean, \<open>analyze\<close> fails with the \<open>ConfigError\<close> of that check and the
  parser is not called.
\<close>

theorem analyze_template_field:
  assumes "args decorator = Some [meta]" and "isObjectLiteralExpression meta"
    and "extractDirectiveMetadata env node decorator = Some directiveMetadata"
    and "analyze env node decorator s = (result, s')"
  shows "(reflectObjectLiteral env meta ''template'' = None \<longrightarrow>
           result = Inl (ConfigError ''For now, components must directly have a template.''))
      \<and> (\<forall>templateExpr. reflectObjectLiteral env meta ''template'' = Some templateExpr
             \<and> \<not> isString (staticallyResolve env templateExpr) \<longrightarrow>
           result =
             Inl (ConfigError (''Template must statically resolve to a string: '' @ name_text node)))
      \<and> (\<forall>templateExpr templateStr.
             reflectObjectLiteral env meta ''template'' = Some templateExpr
             \<and> staticallyResolve env templateExpr = StringValue templateStr \<longrightarrow>
           (\<forall>preserveWhitespaces.
              (reflectObjectLiteral env meta ''preserveWhitespaces'' = None
                 \<and> preserveWhitespaces = False
               \<or> (\<exists>valueExpr. reflectObjectLiteral env meta ''preserveWhitespaces'' = Some valueExpr
                     \<and> staticallyResolve env valueExpr = BooleanValue preserveWhitespaces)) \<longrightarrow>
              ParseTemplate templateStr
                (fileName node @ ''#'' @ name_text node @ ''/template.html'') preserveWhitespaces
              \<in> set (calls_since s s')
              \<and> (errors (parseTemplate env templateStr
                     (fileName node @ ''#'' @ name_text node @ ''/template.html'')
                     preserveWhitespaces) = None \<longrightarrow>
                   (\<exists>m. result = Inr \<lparr>analysis = Some m\<rparr>
                      \<and> template m = parseTemplate env templateStr
                           (fileName node @ ''#'' @ name_text node @ ''/template.html'')
                           preserveWhitespaces))
              \<and> (\<forall>errs. errors (parseTemplate env templateStr
                     (fileName node @ ''#'' @ name_text node @ ''/template.html'')
                     preserveWhitespaces) = Some errs \<longrightarrow>
                   result = Inl (TemplateParseError
                     (''Errors parsing template: '' @ join '', '' (map toString errs)))))
           \<and> (\<forall>valueExpr. reflectObjectLiteral env meta ''preserveWhitespaces'' = Some valueExpr
                 \<and> \<not> isBoolean (staticallyResolve env valueExpr) \<longrightarrow>
               result =
                 Inl (ConfigError ''preserveWhitespaces must resolve to a boolean if present'')
               \<and> (\<forall>t u b. ParseTemplate t u b \<notin> set (calls_since s s'))))"
  using assms by (auto simp: analyze_defs split: if_splits option.splits)

text \<open>
  The cases on \<open>Foo\<close>: no template, the template \<^verbatim>\<open>5\<close>, the template
  \<^verbatim>\<open>"<div></div>"\<close> alone (parsed, and the parser's result is in the metadata), the
  template \<^verbatim>\<open>"<p><b>"\<close> (parsed, with two diagnostics), and \<^verbatim>\<open>"<div></div>"\<close>
  with \<^verbatim>\<open>preserveWhitespaces: "yes"\<close>.
\<close>

theorem analyze_template_field_witness:
  "reflectObjectLiteral sample_env config_no_template ''template'' = None
   \<and> fst (analyze sample_env Foo (Component (Some [config_no_template])) initial_state) =
       Inl (ConfigError ''For now, components must directly have a template.'')
   \<and> reflectObjectLiteral sample_env config_number ''template'' = Some (NumericLiteral 5)
   \<and> \<not> isString (staticallyResolve sample_env (NumericLiteral 5))
   \<and> fst (analyze sample_env Foo (Component (Some [config_number])) initial_state) =
       Inl (ConfigError (''Template must statically resolve to a string: '' @ name_text Foo))
   \<and> reflectObjectLiteral sample_env config_div ''template'' = Some (StringLiteral ''<div></div>'')
   \<and> staticallyResolve sample_env (StringLiteral ''<div></div>'') = StringValue ''<div></div>''
   \<and> reflectObjectLiteral sample_env config_div ''preserveWhitespaces'' = None
   \<and> errors (parseTemplate sample_env ''<div></div>''
         (fileName Foo @ ''#'' @ name_text Foo @ ''/template.html'') False) = None
   \<and> ParseTemplate ''<div></div>'' (fileName Foo @ ''#'' @ name_text Foo @ ''/template.html'')
         False
       \<in> set (calls_since initial_state
           (snd (analyze sample_env Foo (Component (Some [config_div])) initial_state)))
   \<and> (\<exists>m. fst (analyze sample_env Foo (Component (Some [config_div])) initial_state) =
             Inr \<lparr>analysis = Some m\<rparr>
          \<and> template m = parseTemplate sample_env ''<div></div>''
               (fileName Foo @ ''#'' @ name_text Foo @ ''/template.html'') False)
   \<and> reflectObjectLiteral sample_env config_unclosed ''template'' = Some (StringLiteral ''<p><b>'')
   \<and> errors (parseTemplate sample_env ''<p><b>''
         (fileName Foo @ ''#'' @ name_text Foo @ ''/template.html'') False) =
       Some [ParseError ''unclosed tag p'', ParseError ''unclosed tag b'']
   \<and> fst (analyze sample_env Foo (Component (Some [config_unclosed])) initial_state) =
       Inl (TemplateParseError (''Errors parsing template: '' @
         join '', '' (map toString [ParseError ''unclosed tag p'', ParseError ''unclosed tag b''])))
   \<and> reflectObjectLiteral sample_env config_yes ''template'' = Some (StringLiteral ''<div></div>'')
   \<and> reflectObjectLiteral sample_env config_yes ''preserveWhitespaces'' = Some (StringLiteral ''yes'')
   \<and> \<not> isBoolean (staticallyResolve sample_env (StringLiteral ''yes''))
   \<and> fst (analyze sample_env Foo (Component (Some [config_yes])) initial_state) =
       Inl (ConfigError ''preserveWhitespaces must resolve to a boolean if present'')"
proof -
  note none = analyze_template_field
    [OF args_Component sample_literals(5) sample_extracts(4) surjective_pairing,
     of initial_state, THEN conjunct1, rule_format]
  have a: "fst (analyze sample_env Foo (Component (Some [config_no_template])) initial_state) =
       Inl (ConfigError ''For now, components must directly have a template.'')"
    using none sample_reflected(1) by simp
  note number = analyze_template_field
    [OF args_Component sample_literals(6) sample_extracts(5) surjective_pairing,
     of initial_state, THEN conjunct2, THEN conjunct1, rule_format, of "NumericLiteral 5"]
  have b: "fst (analyze sample_env Foo (Component (Some [config_number])) initial_state) =
       Inl (ConfigError (''Template must statically resolve to a string: '' @ name_text Foo))"
    using number sample_reflected(2) sample_resolved(1) by simp
  note div = analyze_template_field
    [OF args_Component sample_literals(1) sample_extracts(1) surjective_pairing,
     of initial_state, THEN conjunct2, THEN conjunct2, rule_format,
     of "StringLiteral ''<div></div>''" "''<div></div>''", THEN conjunct1, rule_format, of False]
  have c: "ParseTemplate ''<div></div>'' (fileName Foo @ ''#'' @ name_text Foo @ ''/template.html'')
         False
       \<in> set (calls_since initial_state
           (snd (analyze sample_env Foo (Component (Some [config_div])) initial_state)))
     \<and> (\<exists>m. fst (analyze sample_env Foo (Component (Some [config_div])) initial_state) =
             Inr \<lparr>analysis = Some m\<rparr>
          \<and> template m = parseTemplate sample_env ''<div></div>''
               (fileName Foo @ ''#'' @ name_text Foo @ ''/template.html'') False)"
    using div sample_reflected(3,4) sample_resolved(2) sample_parsed(1) by simp
  note unclosed = analyze_template_field
    [OF args_Component sample_literals(4) sample_extract_unclosed surjective_pairing,
     of initial_state, THEN conjunct2, THEN conjunct2, rule_format,
     of "StringLiteral ''<p><b>''" "''<p><b>''", THEN conjunct1, rule_format, of False]
  have d: "fst (analyze sample_env Foo (Component (Some [config_unclosed])) initial_state) =
       Inl (TemplateParseError (''Errors parsing template: '' @
         join '', '' (map toString [ParseError ''unclosed tag p'', ParseError ''unclosed tag b''])))"
    using unclosed sample_reflected(7,8) sample_resolved(4) sample_parsed(2) by simp
  note yes = analyze_template_field
    [OF args_Component sample_literals(2) sample_extracts(2) surjective_pairing,
     of initial_state, THEN conjunct2, THEN conjunct2, rule_format,
     of "StringLiteral ''<div></div>''" "''<div></div>''", THEN conjunct2, rule_format,
     of "StringLiteral ''yes''"]
  have e: "fst (analyze sample_env Foo (Component (Some [config_yes])) initial_state) =
       Inl (ConfigError ''preserveWhitespaces must resolve to a boolean if present'')"
    using yes sample_reflected(5,6) sample_resolved(2,3) by simp
  from a b c d e sample_reflected sample_resolved sample_parsed show ?thesis
    by (intro conjI) (erule conjunct1 conjunct2 | assumption)+
qed

text \<open>
  A template that evaluates to a string is not always parsed. \<open>Foo\<close> with
  \<^verbatim>\<open>{ template: "<div></div>", preserveWhitespaces: "yes" }\<close> passes the argument
  checks, is not skipped, and its template is the string \<^verbatim>\<open><div></div>\<close>; yet
  \<open>analyze\<close> fails at the next check, and the calls it has made end with the two
  evaluations: the parser is not among them.
\<close>

theorem analyze_string_template_parsed_counterexample:
  "args (Component (Some [config_yes])) = Some [config_yes]
   \<and> isObjectLiteralExpression config_yes
   \<and> extractDirectiveMetadata sample_env Foo (Component (Some [config_yes])) =
       Some \<lparr>selector = None, shared = SharedFields [(''name'', ''Foo'')]\<rparr>
   \<and> reflectObjectLiteral sample_env config_yes ''template'' = Some (StringLiteral ''<div></div>'')
   \<and> staticallyResolve sample_env (StringLiteral ''<div></div>'') = StringValue ''<div></div>''
   \<and> fst (analyze sample_env Foo (Component (Some [config_yes])) initial_state) =
       Inl (ConfigError ''preserveWhitespaces must resolve to a boolean if present'')
   \<and> calls_since initial_state
        (snd (analyze sample_env Foo (Component (Some [config_yes])) initial_state)) =
       [ExtractDirectiveMetadata Foo (Component (Some [config_yes])),
        ReflectObjectLiteral config_yes,
        StaticallyResolve (StringLiteral ''<div></div>''),
        StaticallyResolve (StringLiteral ''yes'')]"
  by (simp add: analyze_Foo_yes args_Component sample_literals sample_extracts)
     (simp add: calls_since_def sample_env_def sample_reflect_def config_yes_def initial_state_def)

text \<open>
  C7. If the decorator has no argument list or its argument count is not one,
  \<open>analyze\<close> fails with a \<open>ConfigError\<close>. If its one argument is not an object
  literal, \<open>analyze\<close> fails with the \<open>ConfigError\<close> \<^verbatim>\<open>Decorator argument must be
  literal.\<close> In both cases the state comes back as it was: no collaborator has been
  called, so no field of the configuration has been read or evaluated.
\<close>

theorem analyze_argument_checks:
  "(args decorator = None \<or> (\<exists>as. args decorator = Some as \<and> length as \<noteq> 1) \<longrightarrow>
      analyze env node decorator s =
        (Inl (ConfigError ''Incorrect number of arguments to @Component decorator''), s))
   \<and> (\<forall>meta. args decorator = Some [meta] \<and> \<not> isObjectLiteralExpression meta \<longrightarrow>
      analyze env node decorator s = (Inl (ConfigError ''Decorator argument must be literal.''), s)
      \<and> calls_since s (snd (analyze env node decorator s)) = [])"
  by (auto simp: analyze_defs)

text \<open>
  \<^verbatim>\<open>@Component\<close> without a call, \<^verbatim>\<open>@Component()\<close>, a decorator with two arguments,
  and \<^verbatim>\<open>@Component(config)\<close>.
\<close>

theorem analyze_argument_checks_witness:
  "analyze sample_env Foo (Component None) initial_state =
     (Inl (ConfigError ''Incorrect number of arguments to @Component decorator''), initial_state)
   \<and> analyze sample_env Foo (Component (Some [])) initial_state =
     (Inl (ConfigError ''Incorrect number of arguments to @Component decorator''), initial_state)
   \<and> analyze sample_env Foo (Component (Some [config_div, config_number])) initial_state =
     (Inl (ConfigError ''Incorrect number of arguments to @Component decorator''), initial_state)
   \<and> \<not> isObjectLiteralExpression (Identifier ''config'')
   \<and> analyze sample_env Foo (Component (Some [Identifier ''config''])) initial_state =
     (Inl (ConfigError ''Decorator argument must be literal.''), initial_state)
   \<and> calls_since initial_state
       (snd (analyze sample_env Foo (Component (Some [Identifier ''config''])) initial_state)) = []"
  using analyze_argument_checks [of "Component None" sample_env Foo initial_state]
    analyze_argument_checks [of "Component (Some [])" sample_env Foo initial_state]
    analyze_argument_checks
      [of "Component (Some [config_div, config_number])" sample_env Foo initial_state]
    analyze_argument_checks
      [of "Component (Some [Identifier ''config''])" sample_env Foo initial_state]
  by (simp add: args_Component calls_since_def)

text \<open>
  C8. Let a declaration pass the argument checks and not be skipped. If its
  configuration has no \<^verbatim>\<open>preserveWhitespaces\<close> field, every call of the template
  parser that \<open>analyze\<close> makes passes the option \<open>False\<close>. If the field is there and its
  value is not a boolean, \<open>analyze\<close> fails with a \<open>ConfigError\<close> and the parser is not
  called. If the field is there and its value is a boolean, every call of the parser
  passes exactly that boolean. And whenever the template is a string and the field is
  absent or a boolean, the parser is called with the option so determined, and what
  \<open>analyze\<close> returns is made of the parser's answer to the template string, the
  locator and exactly that option: the metadata holds that answer as its template
  when it has no diagnostics, and the error is the \<open>TemplateParseError\<close> of its
  diagnostics otherwise.
\<close>

theorem analyze_preserveWhitespaces:
  assumes "args decorator = Some [meta]" and "isObjectLiteralExpression meta"
    and "extractDirectiveMetadata env node decorator = Some directiveMetadata"
    and "analyze env node decorator s = (result, s')"
  shows "(reflectObjectLiteral env meta ''preserveWhitespaces'' = None \<longrightarrow>
           (\<forall>t u b. ParseTemplate t u b \<in> set (calls_since s s') \<longrightarrow> b = False))
      \<and> (\<forall>valueExpr. reflectObjectLiteral env meta ''preserveWhitespaces'' = Some valueExpr
             \<and> \<not> isBoolean (staticallyResolve env valueExpr) \<longrightarrow>
           (\<exists>msg. result = Inl (ConfigError msg))
           \<and> (\<forall>t u b. ParseTemplate t u b \<notin> set (calls_since s s')))
      \<and> (\<forall>valueExpr. reflectObjectLiteral env meta ''preserveWhitespaces'' = Some valueExpr
             \<and> isBoolean (staticallyResolve env valueExpr) \<longrightarrow>
           (\<forall>t u b. ParseTemplate t u b \<in> set (calls_since s s')
              \<longrightarrow> b = booleanOf (staticallyResolve env valueExpr)))
      \<and> (\<forall>templateExpr templateStr preserveWhitespaces.
             reflectObjectLiteral env meta ''template'' = Some templateExpr
             \<and> staticallyResolve env templateExpr = StringValue templateStr
             \<and> (reflectObjectLiteral env meta ''preserveWhitespaces'' = None
                   \<and> preserveWhitespaces = False
                 \<or> (\<exists>valueExpr. reflectObjectLiteral env meta ''preserveWhitespaces'' = Some valueExpr
                       \<and> staticallyResolve env valueExpr = BooleanValue preserveWhitespaces)) \<longrightarrow>
           ParseTemplate templateStr
             (fileName node @ ''#'' @ name_text node @ ''/template.html'') preserveWhitespaces
           \<in> set (calls_since s s')
           \<and> (errors (parseTemplate env templateStr
                  (fileName node @ ''#'' @ name_text node @ ''/template.html'')
                  preserveWhitespaces) = None \<longrightarrow>
                (\<exists>m. result = Inr \<lparr>analysis = Some m\<rparr>
                   \<and> template m = parseTemplate env templateStr
                        (fileName node @ ''#'' @ name_text node @ ''/template.html'')
                        preserveWhitespaces))
           \<and> (\<forall>errs. errors (parseTemplate env templateStr
                  (fileName node @ ''#'' @ name_text node @ ''/template.html'')
                  preserveWhitespaces) = Some errs \<longrightarrow>
                result = Inl (TemplateParseError
                  (''Errors parsing template: '' @ join '', '' (map toString errs)))))"
  using assms by (auto simp: analyze_defs split: if_splits option.splits)

text \<open>
  With the parser that shows what it was given: \<open>Foo\<close> without the field (the
  template in the metadata was parsed with the option off), \<open>Bar\<close> with
  \<^verbatim>\<open>preserveWhitespaces: true\<close> (parsed with the option on); and, with the sample
  parser, \<open>Foo\<close> with \<^verbatim>\<open>preserveWhitespaces: "yes"\<close>.
\<close>

theorem analyze_preserveWhitespaces_witness:
  "reflectObjectLiteral echo_env config_div ''template'' = Some (StringLiteral ''<div></div>'')
   \<and> staticallyResolve echo_env (StringLiteral ''<div></div>'') = StringValue ''<div></div>''
   \<and> reflectObjectLiteral echo_env config_div ''preserveWhitespaces'' = None
   \<and> ParseTemplate ''<div></div>'' ''foo.ts#Foo/template.html'' False
       \<in> set (calls_since initial_state
           (snd (analyze echo_env Foo (Component (Some [config_div])) initial_state)))
   \<and> (\<exists>m. fst (analyze echo_env Foo (Component (Some [config_div])) initial_state) =
             Inr \<lparr>analysis = Some m\<rparr>
          \<and> nodes (template m) =
              [Text ''<div></div>'', Text ''foo.ts#Foo/template.html'', Text ''collapse''])
   \<and> reflectObjectLiteral sample_env config_yes ''preserveWhitespaces'' = Some (StringLiteral ''yes'')
   \<and> \<not> isBoolean (staticallyResolve sample_env (StringLiteral ''yes''))
   \<and> (\<exists>msg. fst (analyze sample_env Foo (Component (Some [config_yes])) initial_state) =
         Inl (ConfigError msg))
   \<and> reflectObjectLiteral echo_env config_bar ''template'' = Some (StringLiteral ''<div></div>'')
   \<and> reflectObjectLiteral echo_env config_bar ''preserveWhitespaces'' = Some TrueKeyword
   \<and> staticallyResolve echo_env TrueKeyword = BooleanValue True
   \<and> ParseTemplate ''<div></div>'' ''bar.ts#Bar/template.html'' True
       \<in> set (calls_since initial_state
           (snd (analyze echo_env Bar (Component (Some [config_bar])) initial_state)))
   \<and> (\<exists>m. fst (analyze echo_env Bar (Component (Some [config_bar])) initial_state) =
             Inr \<lparr>analysis = Some m\<rparr>
          \<and> nodes (template m) =
              [Text ''<div></div>'', Text ''bar.ts#Bar/template.html'', Text ''preserve''])"
proof -
  have foo_config:
    "reflectObjectLiteral echo_env config_div ''template'' = Some (StringLiteral ''<div></div>'')
     \<and> staticallyResolve echo_env (StringLiteral ''<div></div>'') = StringValue ''<div></div>''
     \<and> (reflectObjectLiteral echo_env config_div ''preserveWhitespaces'' = None \<and> False = False
        \<or> (\<exists>valueExpr.
              reflectObjectLiteral echo_env config_div ''preserveWhitespaces'' = Some valueExpr
              \<and> staticallyResolve echo_env valueExpr = BooleanValue False))"
    using echo_reflected(1,2) echo_resolved(1) by simp
  note foo = analyze_preserveWhitespaces
    [OF args_Component sample_literals(1) echo_extracts(1) surjective_pairing,
     of initial_state, THEN conjunct2, THEN conjunct2, THEN conjunct2, rule_format,
     OF foo_config, unfolded echo_parsed(1)]
  have "errors (parseTemplate echo_env ''<div></div>'' ''foo.ts#Foo/template.html'' False) = None"
    by (simp add: echo_parsed(3))
  with foo obtain m where
    "fst (analyze echo_env Foo (Component (Some [config_div])) initial_state) =
       Inr \<lparr>analysis = Some m\<rparr>"
    "template m = parseTemplate echo_env ''<div></div>'' ''foo.ts#Foo/template.html'' False"
    by blast
  then have a: "\<exists>m. fst (analyze echo_env Foo (Component (Some [config_div])) initial_state) =
             Inr \<lparr>analysis = Some m\<rparr>
          \<and> nodes (template m) =
              [Text ''<div></div>'', Text ''foo.ts#Foo/template.html'', Text ''collapse'']"
    by (simp add: echo_parsed(3))
  have b: "\<exists>msg. fst (analyze sample_env Foo (Component (Some [config_yes])) initial_state) =
         Inl (ConfigError msg)"
    using analyze_preserveWhitespaces
            [OF args_Component sample_literals(2) sample_extracts(2) surjective_pairing,
             of initial_state, THEN conjunct2, THEN conjunct1, rule_format,
             of "StringLiteral ''yes''"]
      sample_reflected(6) sample_resolved(3) by blast
  have bar_config:
    "reflectObjectLiteral echo_env config_bar ''template'' = Some (StringLiteral ''<div></div>'')
     \<and> staticallyResolve echo_env (StringLiteral ''<div></div>'') = StringValue ''<div></div>''
     \<and> (reflectObjectLiteral echo_env config_bar ''preserveWhitespaces'' = None \<and> True = False
        \<or> (\<exists>valueExpr.
              reflectObjectLiteral echo_env config_bar ''preserveWhitespaces'' = Some valueExpr
              \<and> staticallyResolve echo_env valueExpr = BooleanValue True))"
    using echo_reflected(3,4) echo_resolved(1,2) by simp
  note bar = analyze_preserveWhitespaces
    [OF args_Component sample_literals(3) echo_extracts(2) surjective_pairing,
     of initial_state, THEN conjunct2, THEN conjunct2, THEN conjunct2, rule_format,
     OF bar_config, unfolded echo_parsed(2)]
  have "errors (parseTemplate echo_env ''<div></div>'' ''bar.ts#Bar/template.html'' True) = None"
    by (simp add: echo_parsed(3))
  with bar obtain m' where
    "fst (analyze echo_env Bar (Component (Some [config_bar])) initial_state) =
       Inr \<lparr>analysis = Some m'\<rparr>"
    "template m' = parseTemplate echo_env ''<div></div>'' ''bar.ts#Bar/template.html'' True"
    by blast
  then have c: "\<exists>m. fst (analyze echo_env Bar (Component (Some [config_bar])) initial_state) =
             Inr \<lparr>analysis = Some m\<rparr>
          \<and> nodes (template m) =
              [Text ''<div></div>'', Text ''bar.ts#Bar/template.html'', Text ''preserve'']"
    by (simp add: echo_parsed(3))
  from foo [THEN conjunct1] a b bar [THEN conjunct1] c
    echo_reflected echo_resolved sample_reflected(6) sample_resolved(3)
  show ?thesis
    by (intro conjI) assumption+
qed

text \<open>
  C9. If a declaration passes the argument checks and the extraction of the directive
  metadata returns the skip value (\<^verbatim>\<open>undefined\<close>), \<open>analyze\<close> returns the empty
  output \<^verbatim>\<open>{}\<close> and no error; the extraction is the only call it has made, so the
  template and \<^verbatim>\<open>preserveWhitespaces\<close> fields are never looked at, whatever they hold.
\<close>

theorem analyze_skip:
  assumes "args decorator = Some [meta]" and "isObjectLiteralExpression meta"
    and "extractDirectiveMetadata env node decorator = None"
  shows "analyze env node decorator s =
           (Inr \<lparr>analysis = None\<rparr>, log (ExtractDirectiveMetadata node decorator) s)"
  using assms by (simp add: analyze_def)

text \<open>
  \<open>Foo\<close> with \<^verbatim>\<open>{ jit: true, template: 5, preserveWhitespaces: "yes" }\<close>: both later
  checks would fail.
\<close>

theorem analyze_skip_witness:
  "args (Component (Some [config_jit])) = Some [config_jit]
   \<and> isObjectLiteralExpression config_jit
   \<and> extractDirectiveMetadata sample_env Foo (Component (Some [config_jit])) = None
   \<and> staticallyResolve sample_env (the (reflectObjectLiteral sample_env config_jit ''template''))
       = NumberValue 5
   \<and> analyze sample_env Foo (Component (Some [config_jit])) initial_state =
       (Inr \<lparr>analysis = None\<rparr>,
        log (ExtractDirectiveMetadata Foo (Component (Some [config_jit]))) initial_state)"
  using analyze_skip [OF args_Component sample_literals(7) sample_extracts(6), of initial_state]
    args_Component sample_literals(7) sample_extracts(6)
  by (simp add: sample_env_def sample_reflect_def config_jit_def)

text \<open>
  C10. Whenever \<open>analyze\<close> returns metadata, its \<open>viewQueries\<close> field is the empty
  list: \<open>analyze\<close> extracts no view queries.
\<close>

theorem analyze_viewQueries_empty:
  "analyze env node decorator s = (Inr \<lparr>analysis = Some m\<rparr>, s') \<Longrightarrow> viewQueries m = []"
  by (auto simp: analyze_defs split: if_splits option.splits)

theorem analyze_viewQueries_empty_witness:
  "analyze sample_env Foo (Component (Some [config_div])) initial_state =
     (Inr \<lparr>analysis = Some Foo_metadata\<rparr>, Foo_analyzed)
   \<and> viewQueries Foo_metadata = []"
  using analyze_viewQueries_empty [OF analyze_Foo] analyze_Foo by simp

end
